theory Spec2Isabelle
  imports Complex_Main "HOL-Library.Multiset"
begin

section \<open>JavaScript strings\<close>

text \<open>
  A JavaScript string is a sequence of UTF-16 code units, and \<open>length\<close>, \<open>substring\<close>,
  \<open>slice\<close> and indexing all count code units. A code unit is modelled by its number, so
  that the emoji of the type table (outside Latin-1, several of them surrogate pairs) are
  ordinary strings of the model. \<open>js\<close> reads an ASCII literal of the source.
\<close>

type_synonym jchar = nat
type_synonym jstring = "jchar list"

definition js :: "string \<Rightarrow> jstring" where
  "js s = map of_char s"

text \<open>
  The class \<open>\s\<close> of a regular expression and the characters removed by \<open>trim\<close> are the
  same set: the white space and the line terminators of ECMAScript.
\<close>

definition isSpace :: "jchar \<Rightarrow> bool" where
  "isSpace c \<longleftrightarrow>
     (9 \<le> c \<and> c \<le> 13) \<or> c = 32 \<or> c = 160 \<or> c = 5760 \<or> (8192 \<le> c \<and> c \<le> 8202)
     \<or> c = 8232 \<or> c = 8233 \<or> c = 8239 \<or> c = 8287 \<or> c = 12288 \<or> c = 65279"

text \<open>The dot of a regular expression (no \<open>s\<close> flag) matches anything but a line terminator.\<close>

definition isLineTerminator :: "jchar \<Rightarrow> bool" where
  "isLineTerminator c \<longleftrightarrow> c = 10 \<or> c = 13 \<or> c = 8232 \<or> c = 8233"

definition isLower :: "jchar \<Rightarrow> bool" where
  "isLower c \<longleftrightarrow> 97 \<le> c \<and> c \<le> 122"

text \<open>
  Under the \<open>i\<close> flag (without \<open>u\<close>) a character is compared after \<open>toUpperCase\<close>, except
  that a character outside ASCII is never mapped into ASCII; for the ASCII patterns of this
  program that is the folding of \<open>a\<close>..\<open>z\<close> onto \<open>A\<close>..\<open>Z\<close> and nothing else.
\<close>

definition canonicalize :: "jchar \<Rightarrow> jchar" where
  "canonicalize c = (if isLower c then c - 32 else c)"

definition trim :: "jstring \<Rightarrow> jstring" where
  "trim s = rev (dropWhile isSpace (rev (dropWhile isSpace s)))"

definition startsWith :: "jstring \<Rightarrow> jstring \<Rightarrow> bool" where
  "startsWith s t \<longleftrightarrow> take (length t) s = t"

definition endsWith :: "jstring \<Rightarrow> jstring \<Rightarrow> bool" where
  "endsWith s t \<longleftrightarrow> length t \<le> length s \<and> drop (length s - length t) s = t"

fun includesStr :: "jstring \<Rightarrow> jstring \<Rightarrow> bool" where
  "includesStr [] t = (t = [])"
| "includesStr (c # cs) t = (startsWith (c # cs) t \<or> includesStr cs t)"

text \<open>\<open>s.split(d)\<close> for a one-character separator: never empty, \<open>''''.split(d) = ['''']\<close>.\<close>

fun split :: "jchar \<Rightarrow> jstring \<Rightarrow> jstring list" where
  "split d [] = [[]]"
| "split d (c # cs) =
     (if c = d then [] # split d cs
      else (case split d cs of [] \<Rightarrow> [[c]] | l # ls \<Rightarrow> (c # l) # ls))"

fun join :: "jstring \<Rightarrow> jstring list \<Rightarrow> jstring" where
  "join d [] = []"
| "join d [l] = l"
| "join d (l # ls) = l @ d @ join d ls"

text \<open>The decimal rendering of a non-negative integer in a template literal.\<close>

fun digits :: "nat \<Rightarrow> nat \<Rightarrow> jstring" where
  "digits 0 n = []"
| "digits (Suc k) n = (if n < 10 then [48 + n] else digits k (n div 10) @ [48 + n mod 10])"

definition showNat :: "nat \<Rightarrow> jstring" where
  "showNat n = digits (Suc n) n"

section \<open>Regular expressions\<close>

text \<open>
  A pattern maps the input to the list of its matches \<open>(matched, rest)\<close>, in the order in
  which a backtracking matcher tries them: a greedy quantifier offers the longest match
  first, an optional group its presence before its absence. The first complete match of
  the list is the match the engine reports, with its captures.
\<close>

type_synonym 'a rx = "jstring \<Rightarrow> ('a \<times> jstring) list"

fun rx_plus :: "(jchar \<Rightarrow> bool) \<Rightarrow> jstring rx" where
  "rx_plus P [] = []"
| "rx_plus P (c # cs) =
     (if P c then [(c # m, r). (m, r) \<leftarrow> rx_plus P cs] @ [([c], cs)] else [])"

definition rx_seq :: "jstring rx \<Rightarrow> jstring rx \<Rightarrow> jstring rx" where
  "rx_seq p q s = [(m @ n, t). (m, r) \<leftarrow> p s, (n, t) \<leftarrow> q r]"

definition rx_alts :: "'a rx list \<Rightarrow> 'a rx" where
  "rx_alts ps s = concat (map (\<lambda>p. p s) ps)"

definition rx_opt :: "'a rx \<Rightarrow> 'a option rx" where
  "rx_opt p s = [(Some m, r). (m, r) \<leftarrow> p s] @ [(None, s)]"

definition rx_lit :: "string \<Rightarrow> jstring rx" where
  "rx_lit w s = (if startsWith s (js w) then [(js w, drop (length w) s)] else [])"

definition rx_lit_i :: "string \<Rightarrow> jstring rx" where
  "rx_lit_i w s =
     (if map canonicalize (take (length w) s) = map canonicalize (js w)
      then [(take (length w) s, drop (length w) s)] else [])"

definition first :: "'a list \<Rightarrow> 'a option" where
  "first xs = (case xs of [] \<Rightarrow> None | x # _ \<Rightarrow> Some x)"

text \<open>A pattern that ends in \<open>$\<close> (no \<open>m\<close> flag): only matches that reach the end count.\<close>

definition rx_end :: "'a rx \<Rightarrow> 'a rx" where
  "rx_end p s = filter (\<lambda>(m, r). r = []) (p s)"

text \<open>
  \<open>re.test(s)\<close> for a pattern that is not anchored at the start: the positions of \<open>s\<close> are
  tried from left to right, the end of the string included.
\<close>

fun rx_test :: "'a rx \<Rightarrow> jstring \<Rightarrow> bool" where
  "rx_test p [] = (p [] \<noteq> [])"
| "rx_test p (c # cs) = (p (c # cs) \<noteq> [] \<or> rx_test p cs)"

section \<open>The type table (types.ts)\<close>

record CommitTypeInfo =
  emoji :: jstring
  info_title :: jstring
  info_description :: jstring

definition info :: "jstring \<Rightarrow> string \<Rightarrow> string \<Rightarrow> CommitTypeInfo" where
  "info e t d = \<lparr>emoji = e, info_title = js t, info_description = js d\<rparr>"

text \<open>
  The emoji are given by their UTF-16 code units: U+2728 for \<open>feat\<close>, U+1F41B (the
  surrogate pair D83D DC1B) for \<open>fix\<close>, and so on down the table of the README.
\<close>

definition COMMIT_TYPES :: "(jstring \<times> CommitTypeInfo) list" where
  "COMMIT_TYPES =
   [(js ''feat'', info [10024] ''Features'' ''A new feature''),
    (js ''fix'', info [55357, 56347] ''Bug Fixes'' ''A bug fix''),
    (js ''docs'', info [55357, 56541] ''Documentation'' ''Documentation only changes''),
    (js ''style'', info [55356, 57256] ''Styles''
       ''Changes that do not affect code meaning (whitespace, formatting, missing semi-colons, etc.)''),
    (js ''refactor'', info [9851, 65039] ''Code Refactoring''
       ''A code change that neither fixes a bug nor adds a feature''),
    (js ''perf'', info [9889] ''Performance Improvements''
       ''A code change that improves performance''),
    (js ''test'', info [55358, 56810] ''Tests''
       ''Adding missing tests or correcting existing tests''),
    (js ''build'', info [55357, 56550] ''Builds''
       ''Changes that affect the build system or external dependencies (npm, maven, gradle, etc.)''),
    (js ''ci'', info [55357, 56439] ''Continuous Integration''
       ''Changes to CI configuration files and scripts (GitHub Actions, GitLab CI, Jenkins, etc.)''),
    (js ''chore'', info [55357, 56615] ''Chores''
       (''Other changes that don'' @ [CHR 0x27] @
        ''t modify src or test files (maintenance tasks, config updates, etc.)'')),
    (js ''revert'', info [9194] ''Reverts'' ''Reverts a previous commit''),
    (js ''security'', info [55357, 56594] ''Security Fixes''
       ''Security vulnerability fixes or improvements''),
    (js ''deprecate'', info [9888, 65039] ''Deprecations'' ''Mark features/APIs as deprecated''),
    (js ''breaking'', info [55357, 56485] ''Breaking Changes''
       ''Changes that break backward compatibility''),
    (js ''i18n'', info [55356, 57104] ''Internationalization''
       ''Translations and localization changes''),
    (js ''a11y'', info [9855] ''Accessibility'' ''Accessibility improvements''),
    (js ''deps'', info [11014, 65039] ''Dependencies''
       ''Dependency updates (when not using automated tools)'')]"

text \<open>
  \<open>COMMIT_TYPES\<close> is an object literal, and the program indexes it with strings that come
  from a request or from a message. Such a read finds the object's own keys and, for any
  other key, the properties that every object inherits from \<open>Object.prototype\<close>: those are
  functions or objects, hence truthy, and have no \<open>emoji\<close>.
\<close>

datatype 'a property = Own 'a | Inherited | Absent

definition Object_prototype :: "jstring list" where
  "Object_prototype = map js
     [''constructor'', ''hasOwnProperty'', ''isPrototypeOf'', ''propertyIsEnumerable'',
      ''toLocaleString'', ''toString'', ''valueOf'', ''__proto__'', ''__defineGetter__'',
      ''__defineSetter__'', ''__lookupGetter__'', ''__lookupSetter__'']"

definition lookup :: "jstring \<Rightarrow> CommitTypeInfo property" where
  "lookup t =
     (case map_of COMMIT_TYPES t of
        Some i \<Rightarrow> Own i
      | None \<Rightarrow> if t \<in> set Object_prototype then Inherited else Absent)"

text \<open>\<open>COMMIT_TYPES[type].emoji\<close> inside a template literal or a comparison.\<close>

definition emojiOf :: "CommitTypeInfo property \<Rightarrow> jstring option" where
  "emojiOf p = (case p of Own i \<Rightarrow> Some (emoji i) | _ \<Rightarrow> None)"

definition interpolate :: "jstring option \<Rightarrow> jstring" where
  "interpolate v = (case v of None \<Rightarrow> js ''undefined'' | Some s \<Rightarrow> s)"

section \<open>The message codec (utils.ts)\<close>

record CommitParams =
  type :: jstring
  scope :: "jstring option"
  title :: jstring
  description :: "jstring option"
  breaking :: bool

text \<open>Every failure of the program is \<open>throw new Error(message)\<close>.\<close>

datatype error = Error jstring

text \<open>An optional string in a condition: \<open>undefined\<close> and the empty string are falsy.\<close>

definition truthy :: "jstring option \<Rightarrow> bool" where
  "truthy v = (case v of None \<Rightarrow> False | Some s \<Rightarrow> s \<noteq> [])"

definition header :: "CommitParams \<Rightarrow> jstring" where
  "header params =
     (let scopeStr = (if truthy (scope params) then js ''('' @ the (scope params) @ js '')'' else []);
          breakingPrefix = (if breaking params then js ''!'' else [])
      in interpolate (emojiOf (lookup (type params))) @ js '' '' @ type params @ scopeStr
           @ breakingPrefix @ js '': '' @ title params)"

definition body :: "CommitParams \<Rightarrow> jstring" where
  "body params =
     (if truthy (description params)
      then header params @ js ''\<newline>\<newline>'' @ the (description params)
      else header params)"

definition BREAKING_BLOCK :: jstring where
  "BREAKING_BLOCK = js ''\<newline>\<newline>BREAKING CHANGE: ''"

definition formatCommitMessage :: "CommitParams \<Rightarrow> error + jstring" where
  "formatCommitMessage params =
     (if lookup (type params) = Absent then Inl (Error (js ''Invalid commit type: '' @ type params))
      else if breaking params \<and> truthy (description params)
              \<and> \<not> includesStr (the (description params)) (js ''BREAKING CHANGE:'')
           then Inr (body params @ BREAKING_BLOCK)
           else Inr (body params))"

text \<open>\<open>/^([^\s]+)\s+/\<close>: the whole match and group 1.\<close>

definition emojiRegex :: "jstring \<Rightarrow> (jstring \<times> jstring) option" where
  "emojiRegex s = first
     [(e @ w, e).
        (e, r1) \<leftarrow> rx_plus (\<lambda>c. \<not> isSpace c) s,
        (w, r2) \<leftarrow> rx_plus isSpace r1]"

text \<open>\<open>/^([a-z]+)(\([^)]+\))?(!)?:\s+(.+)$/\<close>: groups 1 to 4.\<close>

definition typeRegex :: "jstring \<Rightarrow> (jstring \<times> jstring option \<times> jstring option \<times> jstring) option" where
  "typeRegex s = first
     [(t, sc, b, ti).
        (t, r1) \<leftarrow> rx_plus isLower s,
        (sc, r2) \<leftarrow> rx_opt (rx_seq (rx_lit ''('')
                      (rx_seq (rx_plus (\<lambda>c. c \<noteq> of_char CHR '')'')) (rx_lit '')''))) r1,
        (b, r3) \<leftarrow> rx_opt (rx_lit ''!'') r2,
        (c, r4) \<leftarrow> rx_lit '':'' r3,
        (w, r5) \<leftarrow> rx_plus isSpace r4,
        (ti, r6) \<leftarrow> rx_plus (\<lambda>c. \<not> isLineTerminator c) r5,
        r6 = []]"

text \<open>
  \<open>s.replace(/p$/, e)\<close> with the empty string for \<open>e\<close>: the leftmost position from which
  \<open>p\<close> reaches the end is cut off; a string without a match is returned as it is.
\<close>

fun replace_end :: "'a rx \<Rightarrow> jstring \<Rightarrow> jstring" where
  "replace_end p [] = []"
| "replace_end p (c # cs) = (if rx_end p (c # cs) \<noteq> [] then [] else c # replace_end p cs)"

definition imperative :: "jstring \<Rightarrow> jstring" where
  "imperative prefix =
     replace_end (rx_lit ''s'')
       (replace_end (rx_lit ''es'')
          (replace_end (\<lambda>s. [(m, r). (o1, r1) \<leftarrow> rx_opt (rx_lit ''s'') s, (m, r) \<leftarrow> rx_lit ''ed'' r1])
             prefix))"

record ValidationResult =
  valid :: bool
  issues :: "jstring list"
  warnings :: "jstring list option"

text \<open>
  \<open>toUpperCase\<close> and \<open>toLowerCase\<close> follow the Unicode tables of the engine, which are not
  part of this program: they are parameters of the validation, which uses them for two of
  its warnings only.
\<close>

record casing =
  toUpperCase :: "jstring \<Rightarrow> jstring"
  toLowerCase :: "jstring \<Rightarrow> jstring"

definition nonImperativePrefixes :: "jstring list" where
  "nonImperativePrefixes = map js [''added'', ''adds'', ''fixed'', ''fixes'', ''updated'', ''updates'']"

definition typeIssues :: "jstring \<Rightarrow> jstring \<Rightarrow> jstring list" where
  "typeIssues emoji' type' =
     (if lookup type' = Absent then [js ''Invalid commit type: '' @ type']
      else let expectedEmoji = emojiOf (lookup type')
           in if Some emoji' \<noteq> expectedEmoji
              then [js ''Emoji '' @ emoji' @ js '' doesn'' @ [39] @ js ''t match type '' @ type'
                      @ js ''. Expected '' @ interpolate expectedEmoji]
              else [])"

definition titleIssues :: "jstring \<Rightarrow> jstring list" where
  "titleIssues title' = (if length title' = 0 then [js ''Title cannot be empty''] else [])"

definition titleWarnings :: "casing \<Rightarrow> jstring \<Rightarrow> jstring list" where
  "titleWarnings U title' =
     (if length title' > 50
      then [js ''Title is '' @ showNat (length title') @ js '' characters (recommended max: 50)'']
      else [])
     @ (case title' of
          [] \<Rightarrow> []
        | c # _ \<Rightarrow> if [c] = toUpperCase U [c] \<and> [c] \<noteq> toLowerCase U [c]
                   then [js ''Title should start with lowercase letter''] else [])
     @ (if endsWith title' (js ''.'') then [js ''Title should not end with a period''] else [])
     @ (case filter (startsWith (toLowerCase U title')) nonImperativePrefixes of
          [] \<Rightarrow> []
        | prefix # _ \<Rightarrow>
            [js ''Use imperative mood: '' @ [34] @ prefix @ [34] @ js '' should be '' @ [34]
               @ imperative prefix @ [34]])"

definition lineWarnings :: "jstring list \<Rightarrow> jstring list" where
  "lineWarnings lines =
     (if length lines > 1
      then (if lines ! 1 \<noteq> []
            then [js ''Second line should be blank (separate title from description)'']
            else [])
           @ [js ''Line '' @ showNat (i + 1) @ js '' is '' @ showNat (length (lines ! i))
                @ js '' characters (recommended max: 72)''.
              i \<leftarrow> [2 ..< length lines], length (lines ! i) > 72]
      else [])"

definition formatError :: string where
  "formatError = ''Invalid commit format. Expected: <emoji> <type>(<scope>): <title>''"

definition rejected :: "string \<Rightarrow> ValidationResult" where
  "rejected issue = \<lparr>valid = False, issues = [js issue], warnings = Some []\<rparr>"

definition validateCommitMessage :: "casing \<Rightarrow> jstring \<Rightarrow> ValidationResult" where
  "validateCommitMessage U message =
     (if message = [] \<or> length (trim message) = 0
      then rejected ''Commit message cannot be empty''
      else
        let lines = split 10 message;
            firstLine = hd lines
        in case emojiRegex firstLine of
             None \<Rightarrow> rejected ''Commit message must start with an emoji''
           | Some (whole, emoji') \<Rightarrow>
               let restOfLine = drop (length emoji' + 1) firstLine
               in (case typeRegex restOfLine of
                     None \<Rightarrow> rejected formatError
                   | Some (type', scope', breaking', title') \<Rightarrow>
                       let issues' = typeIssues emoji' type' @ titleIssues title';
                           warnings' = titleWarnings U title' @ lineWarnings lines
                       in \<lparr>valid = (length issues' = 0), issues = issues',
                           warnings = (if length warnings' > 0 then Some warnings' else None)\<rparr>))"

definition parseCommitMessage :: "jstring \<Rightarrow> CommitParams option" where
  "parseCommitMessage message =
     (let lines = split 10 message;
          firstLine = hd lines
      in case emojiRegex firstLine of
           None \<Rightarrow> None
         | Some (whole, emoji') \<Rightarrow>
             let restOfLine = drop (length whole) firstLine
             in (case typeRegex restOfLine of
                  None \<Rightarrow> None
                | Some (type', scopeRaw, breaking', title') \<Rightarrow>
                    Some \<lparr>type = type',
                          scope = (if truthy scopeRaw then Some (butlast (tl (the scopeRaw))) else None),
                          title = title',
                          description = (if length lines > 2
                                         then Some (trim (join [10] (drop 2 lines))) else None),
                          breaking = (breaking' = Some (js ''!''))\<rparr>))"

text \<open>The loop of \<open>wrapText\<close> over the words, with its two variables.\<close>

fun wrapLoop :: "int \<Rightarrow> jstring list \<Rightarrow> jstring list \<Rightarrow> jstring \<Rightarrow> jstring list \<times> jstring" where
  "wrapLoop width [] lines currentLine = (lines, currentLine)"
| "wrapLoop width (word # words) lines currentLine =
     (if int (length currentLine) + int (length word) + 1 \<le> width
      then wrapLoop width words lines
             (currentLine @ (if length currentLine > 0 then js '' '' else []) @ word)
      else wrapLoop width words
             (if length currentLine > 0 then lines @ [currentLine] else lines) word)"

definition wrapLines :: "jstring \<Rightarrow> int \<Rightarrow> jstring list" where
  "wrapLines text width =
     (case wrapLoop width (split 32 text) [] [] of
        (lines, currentLine) \<Rightarrow>
          if length currentLine > 0 then lines @ [currentLine] else lines)"

definition wrapText :: "jstring \<Rightarrow> int \<Rightarrow> jstring" where
  "wrapText text width = join [10] (wrapLines text width)"

section \<open>The change classifier (git.ts)\<close>

record DiffStats =
  additions :: nat
  deletions :: nat
  files :: "jstring list"

datatype confidence_level = high | medium | low

record SuggestionResult =
  s_type :: jstring
  s_emoji :: jstring
  reason :: jstring
  confidence :: confidence_level

text \<open>\<open>COMMIT_TYPES.docs.emoji\<close> and the like, for a key written in the source.\<close>

definition emojiFor :: "string \<Rightarrow> jstring" where
  "emojiFor t = interpolate (emojiOf (lookup (js t)))"

definition suggestion :: "string \<Rightarrow> jstring \<Rightarrow> confidence_level \<Rightarrow> SuggestionResult" where
  "suggestion t r c = \<lparr>s_type = js t, s_emoji = emojiFor t, reason = r, confidence = c\<rparr>"

text \<open>\<open>/\.(md|txt|rst|adoc)$/i\<close>, or the path mentions \<open>README\<close> or \<open>docs/\<close>.\<close>

definition docRegex :: "jstring rx" where
  "docRegex = rx_end (rx_seq (rx_lit_i ''.'')
                (rx_alts (map rx_lit_i [''md'', ''txt'', ''rst'', ''adoc''])))"

definition isDocFile :: "jstring \<Rightarrow> bool" where
  "isDocFile f \<longleftrightarrow>
     rx_test docRegex f \<or> includesStr f (js ''README'') \<or> includesStr f (js ''docs/'')"

text \<open>\<open>/\.(test|spec)\.(ts|js|tsx|jsx)$/i\<close>, or the path goes through a test directory.\<close>

definition testRegex :: "jstring rx" where
  "testRegex = rx_end (rx_seq (rx_lit_i ''.'')
                 (rx_seq (rx_alts (map rx_lit_i [''test'', ''spec'']))
                    (rx_seq (rx_lit_i ''.'')
                       (rx_alts (map rx_lit_i [''ts'', ''js'', ''tsx'', ''jsx''])))))"

definition isTestFile :: "jstring \<Rightarrow> bool" where
  "isTestFile f \<longleftrightarrow>
     rx_test testRegex f \<or> includesStr f (js ''__tests__/'')
     \<or> includesStr f (js ''test/'') \<or> includesStr f (js ''tests/'')"

text \<open>\<open>/\.(yml|yaml)$/i\<close> and the path names a CI system.\<close>

definition ymlRegex :: "jstring rx" where
  "ymlRegex = rx_end (rx_seq (rx_lit_i ''.'') (rx_alts (map rx_lit_i [''yml'', ''yaml''])))"

definition isCiFile :: "jstring \<Rightarrow> bool" where
  "isCiFile f \<longleftrightarrow>
     rx_test ymlRegex f
     \<and> (includesStr f (js ''.github/'') \<or> includesStr f (js ''.gitlab/'')
          \<or> includesStr f (js ''jenkins'') \<or> includesStr f (js ''circle''))"

text \<open>The manifest names, anchored at both ends: \<open>/^(package\.json|...|go\.sum)$/i\<close>.\<close>

definition manifestNames :: "string list" where
  "manifestNames =
     [''package.json'', ''package-lock.json'', ''yarn.lock'', ''pnpm-lock.yaml'', ''Gemfile.lock'',
      ''requirements.txt'', ''pom.xml'', ''build.gradle'', ''Cargo.toml'', ''go.mod'', ''go.sum'']"

definition isBuildFile :: "jstring \<Rightarrow> bool" where
  "isBuildFile f \<longleftrightarrow> rx_end (rx_alts (map rx_lit_i manifestNames)) f \<noteq> []"

text \<open>\<open>/lock|package\.json/i\<close>.\<close>

definition depsRegex :: "jstring rx" where
  "depsRegex = rx_alts (map rx_lit_i [''lock'', ''package.json''])"

definition isDepsFile :: "jstring \<Rightarrow> bool" where
  "isDepsFile f \<longleftrightarrow> rx_test depsRegex f"

text \<open>
  \<open>/\.(config|conf|cfg|ini|env|rc)(\.(ts|js|json|yaml|yml))?$/i\<close>, or the path starts with
  a dot.
\<close>

definition configRegex :: "jstring rx" where
  "configRegex = rx_end (\<lambda>s.
     [(m, r).
        (m, r1) \<leftarrow> rx_seq (rx_lit_i ''.'')
                    (rx_alts (map rx_lit_i [''config'', ''conf'', ''cfg'', ''ini'', ''env'', ''rc''])) s,
        (o1, r) \<leftarrow> rx_opt (rx_seq (rx_lit_i ''.'')
                    (rx_alts (map rx_lit_i [''ts'', ''js'', ''json'', ''yaml'', ''yml'']))) r1])"

definition isConfigFile :: "jstring \<Rightarrow> bool" where
  "isConfigFile f \<longleftrightarrow> rx_test configRegex f \<or> startsWith f (js ''.'')"

definition NoStagedChanges :: error where
  "NoStagedChanges = Error (js ''No staged changes found'')"

text \<open>
  \<open>suggestCommitType\<close> on the statistics that \<open>getStagedDiff\<close> returned. The counts are
  sums of non-negative integers; the quotient of two of them is a floating-point number in
  the source and the exact quotient here, and the two agree in every comparison with
  \<open>2\<close>, \<open>0.7\<close> and \<open>1.3\<close> as long as the counts stay below \<open>10\<^sup>1\<^sup>4\<close>.
\<close>

definition suggestCommitType :: "DiffStats \<Rightarrow> error + SuggestionResult" where
  "suggestCommitType stats =
     (if length (files stats) = 0 then Inl NoStagedChanges
      else
        let files' = files stats; additions' = additions stats; deletions' = deletions stats;
            docFiles = filter isDocFile files';
            testFiles = filter isTestFile files';
            ciFiles = filter isCiFile files';
            buildFiles = filter isBuildFile files';
            configFiles = filter isConfigFile files';
            ratio = (if deletions' > 0 then rat_of_nat additions' / rat_of_nat deletions'
                     else if additions' > 0 then 10 else 0)
        in if length docFiles > 0 \<and> length docFiles = length files'
           then Inr (suggestion ''docs'' (js ''All changes are to documentation files'') high)
           else if length testFiles > 0 \<and> length testFiles = length files'
           then Inr (suggestion ''test'' (js ''All changes are to test files'') high)
           else if length ciFiles > 0 \<and> length ciFiles = length files'
           then Inr (suggestion ''ci'' (js ''All changes are to CI/CD configuration files'') high)
           else if length buildFiles > 0
           then (if list_ex isDepsFile buildFiles
                 then Inr (suggestion ''deps'' (js ''Changes to dependency files detected'') high)
                 else Inr (suggestion ''build'' (js ''Changes to build configuration detected'') high))
           else if length configFiles > 0 \<and> length configFiles = length files'
           then Inr (suggestion ''chore'' (js ''All changes are to configuration files'') high)
           else if ratio > 2 \<and> additions' > 50
           then Inr (suggestion ''feat''
                  (js ''Significant additions ('' @ showNat additions' @ js '' lines added vs ''
                     @ showNat deletions' @ js '' deleted) suggest new feature'') medium)
           else if ratio > 0.7 \<and> ratio < 1.3 \<and> additions' + deletions' > 100
           then Inr (suggestion ''refactor''
                  (js ''Balanced changes ('' @ showNat additions' @ js '' added, ''
                     @ showNat deletions' @ js '' deleted) suggest refactoring'') medium)
           else if additions' + deletions' < 50
           then Inr (suggestion ''fix'' (js ''Small changes suggest bug fix'') low)
           else Inr (suggestion ''feat''
                  (js ''Unable to determine specific type, defaulting to feature'') low))"

section \<open>The commit tool (index.ts)\<close>

text \<open>
  The program reaches git through the simple-git library. Its two calls are modelled over
  a repository state \<open>'g\<close> that only \<open>commit\<close> can change; a call that fails returns the
  text of its cause.
\<close>

record StatusResult =
  staged :: "jstring list"
  created :: "jstring list"

record 'g SimpleGit =
  status :: "'g \<Rightarrow> jstring + StatusResult"
  commit :: "jstring \<Rightarrow> 'g \<Rightarrow> (jstring + jstring) \<times> 'g"

definition hasStagedChanges :: "'g SimpleGit \<Rightarrow> 'g \<Rightarrow> error + bool" where
  "hasStagedChanges git g =
     (case status git g of
        Inl cause \<Rightarrow> Inl (Error (js ''Failed to check git status: '' @ cause))
      | Inr st \<Rightarrow> Inr (length (staged st) > 0 \<or> length (created st) > 0))"

definition createCommit :: "'g SimpleGit \<Rightarrow> jstring \<Rightarrow> 'g \<Rightarrow> (error + jstring) \<times> 'g" where
  "createCommit git message g =
     (case commit git message g of
        (Inl cause, g') \<Rightarrow> (Inl (Error (js ''Failed to create commit: '' @ cause)), g')
      | (Inr hash, g') \<Rightarrow> (Inr hash, g'))"

definition InvalidMessage :: "jstring list \<Rightarrow> error" where
  "InvalidMessage issues' = Error (js ''Invalid commit message:\<newline>'' @ join [10] issues')"

definition NoStagedChangesToCommit :: error where
  "NoStagedChangesToCommit =
     Error (js ''No staged changes found. Please stage your changes first with git add.'')"

text \<open>The numbered list of warnings: \<open>forEach((warning, i) => ...)\<close>.\<close>

definition numbered :: "jstring list \<Rightarrow> jstring" where
  "numbered ws =
     concat (map (\<lambda>(i, w). showNat (i + 1) @ js ''. '' @ w @ js ''\<newline>'') (enumerate 0 ws))"

definition commitResponse :: "jstring \<Rightarrow> jstring \<Rightarrow> ValidationResult \<Rightarrow> jstring" where
  "commitResponse commitHash message validation =
     [9989] @ js '' Commit created successfully!\<newline>\<newline>Commit hash: '' @ commitHash
       @ js ''\<newline>\<newline>Message:\<newline>'' @ message
       @ (case warnings validation of
            None \<Rightarrow> []
          | Some ws \<Rightarrow> if length ws > 0
                       then js ''\<newline>\<newline>'' @ [9888, 65039] @ js ''  Warnings:\<newline>'' @ numbered ws
                       else [])"

definition handleCommit ::
    "casing \<Rightarrow> 'g SimpleGit \<Rightarrow> CommitParams \<Rightarrow> 'g \<Rightarrow> (error + jstring) \<times> 'g" where
  "handleCommit U git args g =
     (case hasStagedChanges git g of
        Inl e \<Rightarrow> (Inl e, g)
      | Inr hasChanges \<Rightarrow>
          if \<not> hasChanges then (Inl NoStagedChangesToCommit, g)
          else (case formatCommitMessage args of
                  Inl e \<Rightarrow> (Inl e, g)
                | Inr message \<Rightarrow>
                    let validation = validateCommitMessage U message
                    in if \<not> valid validation then (Inl (InvalidMessage (issues validation)), g)
                       else (case createCommit git message g of
                               (Inl e, g') \<Rightarrow> (Inl e, g')
                             | (Inr commitHash, g') \<Rightarrow>
                                 (Inr (commitResponse commitHash message validation), g'))))"

section \<open>Concrete instances\<close>

text \<open>
  The case mappings restricted to ASCII, and a repository whose state is the list of the
  messages committed so far, newest first.
\<close>

definition asciiCasing :: casing where
  "asciiCasing =
     \<lparr>toUpperCase = map (\<lambda>c. if 97 \<le> c \<and> c \<le> 122 then c - 32 else c),
      toLowerCase = map (\<lambda>c. if 65 \<le> c \<and> c \<le> 90 then c + 32 else c)\<rparr>"

definition listGit :: "jstring list \<Rightarrow> (jstring list) SimpleGit" where
  "listGit stagedFiles =
     \<lparr>status = (\<lambda>g. Inr \<lparr>staged = stagedFiles, created = []\<rparr>),
      commit = (\<lambda>message g. (Inr (showNat (length g)), message # g))\<rparr>"

definition breakingExample :: CommitParams where
  "breakingExample =
     \<lparr>type = js ''feat'', scope = None, title = js ''drop the v1 api'',
      description = Some (js ''Removed the v1 endpoints.''), breaking = True\<rparr>"

definition i18nExample :: CommitParams where
  "i18nExample =
     \<lparr>type = js ''i18n'', scope = None, title = js ''add french translations'',
      description = None, breaking = False\<rparr>"

definition a11yExample :: CommitParams where
  "a11yExample =
     \<lparr>type = js ''a11y'', scope = None, title = js ''label the search field'',
      description = None, breaking = False\<rparr>"

definition loginChange :: DiffStats where
  "loginChange = \<lparr>additions = 245, deletions = 12, files = [js ''src/auth/login.ts'']\<rparr>"

definition requirementsOnly :: DiffStats where
  "requirementsOnly = \<lparr>additions = 3, deletions = 1, files = [js ''requirements.txt'']\<rparr>"

definition cargoAndSource :: DiffStats where
  "cargoAndSource = \<lparr>additions = 3, deletions = 1, files = [js ''Cargo.toml'', js ''src/main.rs'']\<rparr>"

section \<open>Case-insensitive patterns\<close>

text \<open>
  Two notions for the proofs about the file patterns: the folded form of a path, and the
  patterns whose matches on the folded path are the folded matches on the path.
\<close>

definition ci :: "jstring \<Rightarrow> jstring" where
  "ci s = map canonicalize s"

definition ci_rx :: "jstring rx \<Rightarrow> bool" where
  "ci_rx p \<longleftrightarrow> (\<forall>s. p (ci s) = map (\<lambda>(m, r). (ci m, ci r)) (p s))"

section \<open>Properties\<close>

subsection \<open>Lists of matches\<close>

lemmas rx_eval = js_def isSpace_def isLower_def isLineTerminator_def first_def rx_seq_def
  rx_opt_def rx_lit_def rx_end_def startsWith_def

lemma first_Some_mem: "first xs = Some x \<Longrightarrow> x \<in> set xs"
  by (cases xs) (auto simp: first_def)

lemma first_None_iff: "first xs = None \<longleftrightarrow> xs = []"
  by (cases xs) (auto simp: first_def)

lemma rx_plus_mem:
  "(m, r) \<in> set (rx_plus P s) \<Longrightarrow> m \<noteq> [] \<and> s = m @ r \<and> (\<forall>c \<in> set m. P c)"
  by (induction s arbitrary: m r) (auto split: if_splits)

lemma typeRegex_title: "typeRegex s = Some (t, sc, b, ti) \<Longrightarrow> ti \<noteq> []"
  by (auto simp: typeRegex_def dest!: first_Some_mem rx_plus_mem)

lemma emoji_lookup:
  "emojiOf (lookup (js ''feat'')) = Some [10024]"
  "emojiOf (lookup (js ''i18n'')) = Some [55356, 57104]"
  "emojiOf (lookup (js ''a11y'')) = Some [9855]"
  by (simp_all add: lookup_def COMMIT_TYPES_def js_def emojiOf_def info_def)

lemma emoji_lookup_present: "emojiOf (lookup t) = Some e \<Longrightarrow> lookup t \<noteq> Absent"
  by (auto simp: emojiOf_def)

subsection \<open>The empty-title issue\<close>

lemma typeIssues_not_title: "js ''Title cannot be empty'' \<notin> set (typeIssues e t)"
  by (auto simp: typeIssues_def js_def Let_def)

lemma rejected_not_title:
  "js ''Title cannot be empty'' \<notin> set (issues (rejected ''Commit message cannot be empty''))"
  "js ''Title cannot be empty'' \<notin> set (issues (rejected ''Commit message must start with an emoji''))"
  "js ''Title cannot be empty'' \<notin> set (issues (rejected formatError))"
  by (simp_all add: rejected_def js_def formatError_def)

text \<open>
  C10. No message makes the validation report \<open>Title cannot be empty\<close>: the header
  pattern captures a title of at least one character, so the branch that would push this
  issue is never taken.
\<close>

theorem validate_never_empty_title:
  "js ''Title cannot be empty'' \<notin> set (issues (validateCommitMessage U message))"
proof -
  have "titleIssues ti = []" if "ti \<noteq> []" for ti
    using that by (simp add: titleIssues_def)
  then show ?thesis
    unfolding validateCommitMessage_def Let_def
    using typeIssues_not_title
    by (auto split: option.splits prod.splits dest!: typeRegex_title
        simp: rejected_not_title)
qed

theorem validate_never_empty_title_witness:
  "js ''Title cannot be empty'' \<notin> set (issues (validateCommitMessage asciiCasing (js ''feat: '')))"
  by (rule validate_never_empty_title)

subsection \<open>The breaking-change block of the formatter\<close>

lemma BREAKING_BLOCK_nonempty: "BREAKING_BLOCK \<noteq> []"
  by (simp add: BREAKING_BLOCK_def js_def)

text \<open>
  C3. For a type that the table knows, the formatter returns the message built from the
  first line and the description with the block \<open>BREAKING CHANGE: \<close> appended after a
  blank line exactly when \<open>breaking\<close> is set, the description is present and not empty, and
  the description does not contain \<open>BREAKING CHANGE:\<close>; otherwise it returns that message
  as it is. With \<open>breaking\<close> set and no description the result is the first line alone.
\<close>

theorem format_breaking_block:
  assumes "lookup (type f) \<noteq> Absent"
  shows "(formatCommitMessage f = Inr (body f @ BREAKING_BLOCK)) =
           (breaking f \<and> (\<exists>d. description f = Some d \<and> d \<noteq> []
                                \<and> \<not> includesStr d (js ''BREAKING CHANGE:'')))
         \<and> (formatCommitMessage f = Inr (body f)) =
           (\<not> (breaking f \<and> (\<exists>d. description f = Some d \<and> d \<noteq> []
                                \<and> \<not> includesStr d (js ''BREAKING CHANGE:''))))
         \<and> (breaking f \<and> description f = None \<longrightarrow> formatCommitMessage f = Inr (header f))"
  using assms BREAKING_BLOCK_nonempty
  by (auto simp: formatCommitMessage_def truthy_def body_def split: option.splits)

theorem format_breaking_block_witness:
  "lookup (type breakingExample) \<noteq> Absent
   \<and> formatCommitMessage breakingExample =
       Inr ([10024] @ js '' feat!: drop the v1 api\<newline>\<newline>Removed the v1 endpoints.\<newline>\<newline>BREAKING CHANGE: '')"
proof -
  have h: "lookup (type breakingExample) \<noteq> Absent"
    using emoji_lookup(1) by (simp add: breakingExample_def emoji_lookup_present)
  have c: "breaking breakingExample \<and> (\<exists>d. description breakingExample = Some d \<and> d \<noteq> []
             \<and> \<not> includesStr d (js ''BREAKING CHANGE:''))"
    by (simp add: breakingExample_def js_def startsWith_def)
  have b: "body breakingExample @ BREAKING_BLOCK =
             [10024] @ js '' feat!: drop the v1 api\<newline>\<newline>Removed the v1 endpoints.\<newline>\<newline>BREAKING CHANGE: ''"
    using emoji_lookup(1)
    by (simp add: body_def header_def breakingExample_def BREAKING_BLOCK_def truthy_def
        interpolate_def js_def)
  from format_breaking_block [OF h] c have "formatCommitMessage breakingExample =
      Inr (body breakingExample @ BREAKING_BLOCK)"
    by blast
  with h b show ?thesis by simp
qed

subsection \<open>Types with digits in their names\<close>

lemma typeRegex_digit: "typeRegex (js ''i18n: add french translations'') = None"
  "typeRegex (js ''a11y: label the search field'') = None"
  by (simp_all add: typeRegex_def rx_eval)

lemma emojiRegex_examples:
  "emojiRegex ([55356, 57104] @ js '' i18n: add french translations'') =
     Some ([55356, 57104, 32], [55356, 57104])"
  "emojiRegex ([9855] @ js '' a11y: label the search field'') = Some ([9855, 32], [9855])"
  by (simp_all add: emojiRegex_def rx_eval)

text \<open>
  C1, at the two registered types whose names contain digits. The formatter accepts
  \<open>i18n\<close> and \<open>a11y\<close> and writes their header; the validation then rejects that very
  message, because the type pattern \<open>[a-z]+\<close> stops at the first digit.
\<close>

theorem validate_format_digit_types:
  "formatCommitMessage i18nExample = Inr ([55356, 57104] @ js '' i18n: add french translations'')
   \<and> validateCommitMessage U ([55356, 57104] @ js '' i18n: add french translations'')
       = rejected formatError
   \<and> formatCommitMessage a11yExample = Inr ([9855] @ js '' a11y: label the search field'')
   \<and> validateCommitMessage U ([9855] @ js '' a11y: label the search field'')
       = rejected formatError
   \<and> \<not> valid (rejected formatError)"
proof -
  have f1: "formatCommitMessage i18nExample = Inr ([55356, 57104] @ js '' i18n: add french translations'')"
    using emoji_lookup(2)
    by (auto simp add: formatCommitMessage_def body_def header_def i18nExample_def truthy_def
        interpolate_def js_def emojiOf_def split: property.splits)
  have f2: "formatCommitMessage a11yExample = Inr ([9855] @ js '' a11y: label the search field'')"
    using emoji_lookup(3)
    by (auto simp add: formatCommitMessage_def body_def header_def a11yExample_def truthy_def
        interpolate_def js_def emojiOf_def split: property.splits)
  have l1: "split 10 ([55356, 57104] @ js '' i18n: add french translations'') =
              [[55356, 57104] @ js '' i18n: add french translations'']"
    by (simp add: js_def)
  have l2: "split 10 ([9855] @ js '' a11y: label the search field'') =
              [[9855] @ js '' a11y: label the search field'']"
    by (simp add: js_def)
  have t1: "trim ([55356, 57104] @ js '' i18n: add french translations'') \<noteq> []"
    by (simp add: js_def trim_def isSpace_def)
  have t2: "trim ([9855] @ js '' a11y: label the search field'') \<noteq> []"
    by (simp add: js_def trim_def isSpace_def)
  have d1: "drop 3 ([55356, 57104] @ js '' i18n: add french translations'') = js ''i18n: add french translations''"
    by (simp add: js_def)
  have d2: "drop 2 ([9855] @ js '' a11y: label the search field'') = js ''a11y: label the search field''"
    by (simp add: js_def)
  have v1: "validateCommitMessage U ([55356, 57104] @ js '' i18n: add french translations'')
       = rejected formatError"
    unfolding validateCommitMessage_def l1 Let_def list.sel emojiRegex_examples
    using t1 d1 by (simp add: typeRegex_digit formatError_def)
  have v2: "validateCommitMessage U ([9855] @ js '' a11y: label the search field'')
       = rejected formatError"
    unfolding validateCommitMessage_def l2 Let_def list.sel emojiRegex_examples
    using t2 d2 by (simp add: typeRegex_digit formatError_def)
  show ?thesis
    using f1 f2 v1 v2 by (simp add: rejected_def)
qed

subsection \<open>The classifier and the staged files\<close>

lemma suggestion_inject: "suggestion t r c = suggestion t' r' c' \<longleftrightarrow> js t = js t' \<and> emojiFor t = emojiFor t' \<and> r = r' \<and> c = c'"
  by (auto simp: suggestion_def)

lemma returns_if:
  "\<exists>r. x = Inr r \<Longrightarrow> \<exists>r. y = Inr r \<Longrightarrow> \<exists>r. (if c then x else y) = Inr r"
  by simp

text \<open>
  C8. The classifier fails, with the error \<open>No staged changes found\<close>, exactly when the
  list of files is empty; on a non-empty list it returns a suggestion.
\<close>

theorem classify_fails_iff_no_files:
  "(suggestCommitType stats = Inl NoStagedChanges) = (files stats = [])
   \<and> ((\<exists>e. suggestCommitType stats = Inl e) = (files stats = []))
   \<and> (files stats \<noteq> [] \<longrightarrow> (\<exists>s. suggestCommitType stats = Inr s))
   \<and> suggestCommitType \<lparr>additions = 0, deletions = 0, files = []\<rparr> = Inl NoStagedChanges"
proof -
  have none: "suggestCommitType s = Inl NoStagedChanges" if "files s = []" for s
    using that by (simp add: suggestCommitType_def)
  have some: "\<exists>r. suggestCommitType stats = Inr r" if "files stats \<noteq> []"
  proof -
    have "length (files stats) = 0 \<longleftrightarrow> False"
      using that by simp
    then show ?thesis
      unfolding suggestCommitType_def Let_def
      by (simp only: if_False) (intro returns_if; blast)
  qed
  have "suggestCommitType \<lparr>additions = 0, deletions = 0, files = []\<rparr> = Inl NoStagedChanges"
    by (rule none) simp
  with none [of stats] some show ?thesis
    by (cases "files stats = []") auto
qed

theorem classify_fails_iff_no_files_witness:
  "files loginChange \<noteq> [] \<and> (\<exists>s. suggestCommitType loginChange = Inr s)"
proof -
  have "files loginChange \<noteq> []"
    by (simp add: loginChange_def)
  with classify_fails_iff_no_files [of loginChange] show ?thesis
    by blast
qed

text \<open>
  C7. The classifier looks at the files only through the number of files that match a
  pattern and through the existence of a matching file, so every reordering of the list
  gives the same suggestion: type, emoji, reason and confidence.
\<close>

lemma length_filter_mset: "mset xs = mset ys \<Longrightarrow> length (filter P xs) = length (filter P ys)"
proof -
  assume "mset xs = mset ys"
  then have "mset (filter P xs) = mset (filter P ys)"
    by (simp only: mset_filter)
  then show ?thesis
    by (rule mset_eq_length)
qed

lemma list_ex_filter_mset:
  "mset xs = mset ys \<Longrightarrow> list_ex P (filter Q xs) = list_ex P (filter Q ys)"
  by (auto simp: list_ex_iff dest: mset_eq_setD)

theorem classify_order_invariant:
  assumes "mset fs = mset gs"
  shows "suggestCommitType (stats\<lparr>files := fs\<rparr>) = suggestCommitType (stats\<lparr>files := gs\<rparr>)"
proof -
  have len: "length fs = length gs"
    using assms by (rule mset_eq_length)
  have flt: "length (filter P fs) = length (filter P gs)" for P
    using assms by (rule length_filter_mset)
  have ex: "list_ex P (filter Q fs) = list_ex P (filter Q gs)" for P Q
    using assms by (rule list_ex_filter_mset)
  have sel: "files (stats\<lparr>files := xs\<rparr>) = xs"
    "additions (stats\<lparr>files := xs\<rparr>) = additions stats"
    "deletions (stats\<lparr>files := xs\<rparr>) = deletions stats" for xs
    by simp_all
  show ?thesis
    unfolding suggestCommitType_def Let_def
    by (simp only: sel len flt ex)
qed

theorem classify_order_invariant_witness:
  "suggestCommitType (cargoAndSource\<lparr>files := [js ''Cargo.toml'', js ''src/main.rs'']\<rparr>) =
   suggestCommitType (cargoAndSource\<lparr>files := [js ''src/main.rs'', js ''Cargo.toml'']\<rparr>)"
proof -
  have "mset [js ''Cargo.toml'', js ''src/main.rs''] = mset [js ''src/main.rs'', js ''Cargo.toml'']"
    by (simp add: add.commute)
  then show ?thesis
    by (rule classify_order_invariant)
qed

end
